theory Spec2Isabelle
  imports Complex_Main "HOL-Library.Word"
begin

unbundle bit_operations_syntax

section \<open>Exceptions\<close>

text \<open>
  Every \<^verbatim>\<open>raise\<close> of the three modules is a value of \<open>error\<close>. The client raises
  plain \<^verbatim>\<open>Exception\<close> objects that differ only in their message; each message has
  a constructor of its own, carrying the values the message is formatted from.
\<close>

datatype json =
    JNull
  | JBool bool
  | JInt int
  | JFloat rat
  | JStr string
  | JList "json list"
  | JDict "(string \<times> json) list"

type_synonym dict = "(string \<times> json) list"

datatype error =
    ValueError string
  | ZeroDivisionError
  | KeyError string
  | QueueFailed int string
  | Timeout
  | ExecutionError "dict option"
  | HistoryFailed int
  | NoImagesFound

section \<open>Seed derivation (generate\_sprites.py)\<close>

subsection \<open>hashlib.md5\<close>

text \<open>
  \<^verbatim>\<open>hashlib.md5(data).hexdigest()\<close> is the MD5 function of RFC 1321 over 32-bit
  words, written out so that a seed can be computed. A Python \<^verbatim>\<open>str\<close> is modelled
  by the bytes of its UTF-8 encoding, so \<open>encode\<close> only changes the type.
\<close>

definition md5_K :: "32 word list" where
  "md5_K =
    [0xd76aa478, 0xe8c7b756, 0x242070db, 0xc1bdceee, 0xf57c0faf, 0x4787c62a, 0xa8304613,
     0xfd469501, 0x698098d8, 0x8b44f7af, 0xffff5bb1, 0x895cd7be, 0x6b901122, 0xfd987193,
     0xa679438e, 0x49b40821, 0xf61e2562, 0xc040b340, 0x265e5a51, 0xe9b6c7aa, 0xd62f105d,
     0x02441453, 0xd8a1e681, 0xe7d3fbc8, 0x21e1cde6, 0xc33707d6, 0xf4d50d87, 0x455a14ed,
     0xa9e3e905, 0xfcefa3f8, 0x676f02d9, 0x8d2a4c8a, 0xfffa3942, 0x8771f681, 0x6d9d6122,
     0xfde5380c, 0xa4beea44, 0x4bdecfa9, 0xf6bb4b60, 0xbebfbc70, 0x289b7ec6, 0xeaa127fa,
     0xd4ef3085, 0x04881d05, 0xd9d4d039, 0xe6db99e5, 0x1fa27cf8, 0xc4ac5665, 0xf4292244,
     0x432aff97, 0xab9423a7, 0xfc93a039, 0x655b59c3, 0x8f0ccc92, 0xffeff47d, 0x85845dd1,
     0x6fa87e4f, 0xfe2ce6e0, 0xa3014314, 0x4e0811a1, 0xf7537e82, 0xbd3af235, 0x2ad7d2bb,
     0xeb86d391]"

definition md5_s :: "nat list" where
  "md5_s =
    [7, 12, 17, 22, 7, 12, 17, 22, 7, 12, 17, 22, 7, 12, 17, 22,
     5, 9, 14, 20, 5, 9, 14, 20, 5, 9, 14, 20, 5, 9, 14, 20,
     4, 11, 16, 23, 4, 11, 16, 23, 4, 11, 16, 23, 4, 11, 16, 23,
     6, 10, 15, 21, 6, 10, 15, 21, 6, 10, 15, 21, 6, 10, 15, 21]"

definition le_bytes :: "nat \<Rightarrow> 'a::len word \<Rightarrow> 8 word list" where
  "le_bytes k w = map (\<lambda>i. ucast (drop_bit (8 * i) w)) [0..<k]"

definition le_word :: "8 word list \<Rightarrow> 32 word" where
  "le_word bs = foldr (\<lambda>b acc. ucast b OR push_bit 8 acc) bs 0"

definition md5_pad :: "8 word list \<Rightarrow> 8 word list" where
  "md5_pad msg =
    (let n = length msg in
     msg @ [0x80] @ replicate ((119 - n mod 64) mod 64) 0
       @ le_bytes 8 (word_of_nat (8 * n) :: 64 word))"

fun chunks :: "nat \<Rightarrow> nat \<Rightarrow> 'a list \<Rightarrow> 'a list list" where
  "chunks 0 k xs = []"
| "chunks (Suc n) k xs = take k xs # chunks n k (drop k xs)"

type_synonym md5_state = "32 word \<times> 32 word \<times> 32 word \<times> 32 word"

definition md5_step :: "32 word list \<Rightarrow> nat \<Rightarrow> md5_state \<Rightarrow> md5_state" where
  "md5_step M i st =
    (case st of (A, B, C, D) \<Rightarrow>
       let (F, g) =
         (if i < 16 then ((B AND C) OR (NOT B AND D), i)
          else if i < 32 then ((D AND B) OR (NOT D AND C), (5 * i + 1) mod 16)
          else if i < 48 then (B XOR C XOR D, (3 * i + 5) mod 16)
          else (C XOR (B OR NOT D), (7 * i) mod 16));
         F' = F + A + md5_K ! i + M ! g
       in (D, B + word_rotl (md5_s ! i) F', B, C))"

definition md5_block :: "md5_state \<Rightarrow> 8 word list \<Rightarrow> md5_state" where
  "md5_block st blk =
    (case st of (a0, b0, c0, d0) \<Rightarrow>
       let M = map le_word (chunks 16 4 blk) in
       case fold (md5_step M) [0..<64] st of
         (A, B, C, D) \<Rightarrow> (a0 + A, b0 + B, c0 + C, d0 + D))"

definition md5 :: "8 word list \<Rightarrow> 8 word list" where
  "md5 msg =
    (let p = md5_pad msg in
     case fold (\<lambda>blk st. md5_block st blk) (chunks (length p div 64) 64 p)
            (0x67452301, 0xefcdab89, 0x98badcfe, 0x10325476) of
       (a, b, c, d) \<Rightarrow> le_bytes 4 a @ le_bytes 4 b @ le_bytes 4 c @ le_bytes 4 d)"

definition hexchar :: "nat \<Rightarrow> char" where
  "hexchar n = ''0123456789abcdef'' ! n"

definition hexdigest :: "8 word list \<Rightarrow> string" where
  "hexdigest bs = concat (map (\<lambda>b. [hexchar (unat b div 16), hexchar (unat b mod 16)]) bs)"

definition encode :: "string \<Rightarrow> 8 word list" where
  "encode s = map of_char s"

subsection \<open>int(s, 16)\<close>

text \<open>
  \<^verbatim>\<open>int(s, 16)\<close> on a string of hexadecimal digits; on the empty string and on any
  other character it raises \<^verbatim>\<open>ValueError\<close>. (Python also accepts a sign, a
  \<^verbatim>\<open>0x\<close> prefix, underscores and blanks; a digest has none of them.)
\<close>

definition hex_digit :: "char \<Rightarrow> int option" where
  "hex_digit c =
    (let n = (of_char c :: nat) in
     if 48 \<le> n \<and> n \<le> 57 then Some (int n - 48)
     else if 97 \<le> n \<and> n \<le> 102 then Some (int n - 87)
     else if 65 \<le> n \<and> n \<le> 70 then Some (int n - 55)
     else None)"

fun hex_value :: "int \<Rightarrow> string \<Rightarrow> int option" where
  "hex_value acc [] = Some acc"
| "hex_value acc (c # cs) =
    (case hex_digit c of None \<Rightarrow> None | Some d \<Rightarrow> hex_value (16 * acc + d) cs)"

definition int_base16 :: "string \<Rightarrow> error + int" where
  "int_base16 s =
    (if s = [] then Inl (ValueError ''invalid literal for int() with base 16'')
     else case hex_value 0 s of
       None \<Rightarrow> Inl (ValueError ''invalid literal for int() with base 16'')
     | Some v \<Rightarrow> Inr v)"

subsection \<open>get\_sprite\_seed\<close>

definition animation_offset :: "(string \<times> int) list" where
  "animation_offset = [(''walk'', 1000), (''idle'', 0), (''attack'', 2000)]"

text \<open>\<^verbatim>\<open>d.get(key, default)\<close> on a dictionary held as an association list.\<close>

definition dict_get :: "('k \<times> 'v) list \<Rightarrow> 'k \<Rightarrow> 'v \<Rightarrow> 'v" where
  "dict_get d k dflt = (case map_of d k of None \<Rightarrow> dflt | Some v \<Rightarrow> v)"

definition get_sprite_seed :: "string \<Rightarrow> string \<Rightarrow> int \<Rightarrow> error + int" where
  "get_sprite_seed entity_name animation frame =
    (case int_base16 (take 8 (hexdigest (md5 (encode entity_name)))) of
       Inl e \<Rightarrow> Inl e
     | Inr base_seed \<Rightarrow> Inr (base_seed + dict_get animation_offset animation 0 + frame))"

section \<open>Images (PIL)\<close>

text \<open>
  A PIL image is its size, its mode string and its pixel data. Sizes are never negative in
  PIL, so they are naturals; coordinates and requested sizes are Python integers. A pixel
  is held as the four bytes (R, G, B, A) that the image has in mode RGBA; that is the
  mode of every canvas the packer creates, and PIL converts what is pasted to it.

  What the library computes numerically is a parameter \<open>P\<close> of the model: the Lanczos
  resampling filter, the mixing of two pixels under a mask value strictly between 0 and
  255, and the histogram of an image.
\<close>

type_synonym pixel = "8 word \<times> 8 word \<times> 8 word \<times> 8 word"

record image =
  im_size :: "nat \<times> nat"
  im_mode :: string
  im_pixels :: "int \<times> int \<Rightarrow> pixel"

record pillow =
  lanczos :: "image \<Rightarrow> nat \<times> nat \<Rightarrow> int \<times> int \<Rightarrow> pixel"
  blend :: "8 word \<Rightarrow> pixel \<Rightarrow> pixel \<Rightarrow> pixel"
  histogram :: "image \<Rightarrow> nat list"

definition alpha :: "pixel \<Rightarrow> 8 word" where
  "alpha p = (case p of (r, g, b, a) \<Rightarrow> a)"

text \<open>\<^verbatim>\<open>image.size\<close>, as the pair of Python integers the source compares and unpacks.\<close>

definition size_of :: "image \<Rightarrow> int \<times> int" where
  "size_of im = (int (fst (im_size im)), int (snd (im_size im)))"

text \<open>\<^verbatim>\<open>Image.new(mode, size, color)\<close>: a negative width or height raises.\<close>

definition new_image :: "string \<Rightarrow> int \<times> int \<Rightarrow> pixel \<Rightarrow> error + image" where
  "new_image mode sz color =
    (if fst sz < 0 \<or> snd sz < 0 then Inl (ValueError ''Width and height must be >= 0'')
     else Inr \<lparr>im_size = (nat (fst sz), nat (snd sz)), im_mode = mode,
               im_pixels = (\<lambda>_. color)\<rparr>)"

text \<open>
  \<^verbatim>\<open>image.resize(size, Image.Resampling.LANCZOS)\<close>: the image itself when the size is
  unchanged; otherwise a width or height below 1 raises, and the pixels are resampled.
\<close>

definition resize :: "pillow \<Rightarrow> image \<Rightarrow> int \<times> int \<Rightarrow> error + image" where
  "resize P im sz =
    (if size_of im = sz then Inr im
     else if fst sz < 1 \<or> snd sz < 1 then Inl (ValueError ''height and width must be > 0'')
     else Inr \<lparr>im_size = (nat (fst sz), nat (snd sz)), im_mode = im_mode im,
               im_pixels = lanczos P im (nat (fst sz), nat (snd sz))\<rparr>)"

text \<open>
  \<^verbatim>\<open>canvas.paste(im, box, mask)\<close> with a two-coordinate box: the pixels of \<open>im\<close> replace
  those of the canvas from \<open>box\<close> on, clipped to the canvas. With a mask, a mask value of
  255 copies the pixel of \<open>im\<close>, a mask value of 0 keeps the pixel of the canvas, and
  the values in between mix the two; an RGBA mask is read through its alpha band.
\<close>

definition paste :: "pillow \<Rightarrow> image \<Rightarrow> image \<Rightarrow> int \<times> int \<Rightarrow> image option \<Rightarrow> image" where
  "paste P canvas im box msk =
    canvas\<lparr>im_pixels := (\<lambda>(x, y).
      let sx = x - fst box; sy = y - snd box in
      if 0 \<le> x \<and> x < fst (size_of canvas) \<and> 0 \<le> y \<and> y < snd (size_of canvas)
         \<and> 0 \<le> sx \<and> sx < fst (size_of im) \<and> 0 \<le> sy \<and> sy < snd (size_of im)
      then (case msk of
              None \<Rightarrow> im_pixels im (sx, sy)
            | Some m \<Rightarrow>
                let a = alpha (im_pixels m (sx, sy)) in
                if a = 255 then im_pixels im (sx, sy)
                else if a = 0 then im_pixels canvas (x, y)
                else blend P a (im_pixels canvas (x, y)) (im_pixels im (sx, sy)))
      else im_pixels canvas (x, y))\<rparr>"

definition transparent :: pixel where
  "transparent = (0, 0, 0, 0)"

section \<open>Sprite sheet packer (sprite\_packer.py)\<close>

record frame_meta =
  meta_x :: int
  meta_y :: int
  meta_w :: int
  meta_h :: int
  duration :: int

record metadata =
  animations :: "(string \<times> frame_meta list) list"
  entityType :: string
  spriteSize :: "int \<times> int"
  totalFrames :: int

text \<open>
  The loop of \<open>pack\<close> over \<^verbatim>\<open>enumerate(frames)\<close>: \<open>i\<close> is the index of the next
  frame, the sheet and the metadata list are the loop's state.
\<close>

fun pack_frames ::
  "pillow \<Rightarrow> int \<times> int \<Rightarrow> int \<Rightarrow> int \<Rightarrow> image list \<Rightarrow> image \<Rightarrow> frame_meta list
    \<Rightarrow> error + image \<times> frame_meta list" where
  "pack_frames P sprite cols i [] sprite_sheet frame_metadata =
     Inr (sprite_sheet, frame_metadata)"
| "pack_frames P sprite cols i (frame # rest) sprite_sheet frame_metadata =
     (case (if size_of frame \<noteq> sprite then resize P frame sprite else Inr frame) of
        Inl e \<Rightarrow> Inl e
      | Inr frame' \<Rightarrow>
          let col = i mod cols;
              row = i div cols;
              x = col * fst sprite;
              y = row * snd sprite
          in pack_frames P sprite cols (i + 1) rest
               (paste P sprite_sheet frame' (x, y) None)
               (frame_metadata @
                 [\<lparr>meta_x = x, meta_y = y, meta_w = fst sprite, meta_h = snd sprite,
                   duration = 150\<rparr>]))"

definition pack :: "pillow \<Rightarrow> image list \<Rightarrow> string \<Rightarrow> string \<Rightarrow> error + image \<times> metadata" where
  "pack P frames entity_name animation_name =
    (case frames of
       [] \<Rightarrow> Inl (ValueError ''Cannot pack empty frame list'')
     | frame0 # _ \<Rightarrow>
         let (sprite_width, sprite_height) = size_of frame0;
             num_frames = int (length frames);
             cols = (if num_frames > 1 then 2 else 1);
             rows = (num_frames + cols - 1) div cols;
             sheet_width = sprite_width * cols;
             sheet_height = sprite_height * rows
         in case new_image ''RGBA'' (sheet_width, sheet_height) transparent of
              Inl e \<Rightarrow> Inl e
            | Inr sprite_sheet \<Rightarrow>
                (case pack_frames P (sprite_width, sprite_height) cols 0 frames sprite_sheet [] of
                   Inl e \<Rightarrow> Inl e
                 | Inr (sprite_sheet', frame_metadata) \<Rightarrow>
                     Inr (sprite_sheet',
                          \<lparr>animations = [(animation_name, frame_metadata)],
                            entityType = entity_name,
                            spriteSize = (sprite_width, sprite_height),
                            totalFrames = num_frames\<rparr>)))"



section \<open>Consistency validation (generate\_sprites.py)\<close>

text \<open>
  \<open>validate_sprites\<close> returns a dictionary: the one with the key \<^verbatim>\<open>error\<close> for an empty
  list (\<open>ErrorResult\<close>, its \<^verbatim>\<open>passes\<close> and \<^verbatim>\<open>error\<close> entries), or the five results. The
  float \<^verbatim>\<open>visual_similarity\<close> is computed exactly, on rationals; dividing by an integer
  zero raises \<^verbatim>\<open>ZeroDivisionError\<close> as in Python.
\<close>

record results =
  size_consistent :: bool
  has_transparency :: bool
  frame_count :: int
  visual_similarity :: rat
  passes :: bool

datatype validation = ErrorResult bool string | Results results

text \<open>
  The loop over \<^verbatim>\<open>range(len(histograms) - 1)\<close>: \<open>h1\<close> and \<open>h2\<close> are the histograms of
  two adjacent frames, \<open>similarity_sum\<close> is the accumulator.
\<close>

fun similarity_loop :: "nat list list \<Rightarrow> rat \<Rightarrow> error + rat" where
  "similarity_loop (h1 # h2 # hs) similarity_sum =
     (if sum_list h1 = 0 then Inl ZeroDivisionError
      else similarity_loop (h2 # hs)
             (similarity_sum + of_nat (sum_list (map2 min h1 h2)) / of_nat (sum_list h1)))"
| "similarity_loop hs similarity_sum = Inr similarity_sum"

definition validate_sprites :: "pillow \<Rightarrow> image list \<Rightarrow> error + validation" where
  "validate_sprites P frames =
    (case frames of
       [] \<Rightarrow> Inr (ErrorResult False ''No frames'')
     | frame0 # _ \<Rightarrow>
         (case
            (if length frames > 1 then
               (case similarity_loop (map (histogram P) frames) 0 of
                  Inl e \<Rightarrow> Inl e
                | Inr similarity_sum \<Rightarrow>
                    Inr (similarity_sum / of_int (int (length frames) - 1)))
             else Inr 1) of
            Inl e \<Rightarrow> Inl e
          | Inr similarity \<Rightarrow>
              let sc = list_all (\<lambda>f. size_of f = size_of frame0) frames;
                  ht = list_all (\<lambda>f. im_mode f = ''RGBA'') frames
              in Inr (Results
                   \<lparr>size_consistent = sc,
                    has_transparency = ht,
                    frame_count = int (length frames),
                    visual_similarity = similarity,
                    passes = (sc \<and> ht \<and> similarity > 1 / 2)\<rparr>)))"

section \<open>ComfyUI client (comfyui\_client.py)\<close>

subsection \<open>The backend\<close>

text \<open>
  The client talks to the backend over HTTP and one websocket. The backend is a parameter
  \<open>B\<close> of the model: what it answers to each request, and which messages it sends on
  the websocket of a client id before the 120 seconds of the timer are over.

  Replies and websocket messages are decoded JSON. Their containers have the types the
  backend gives them (a message is an object whose \<^verbatim>\<open>data\<close>, when present, is an
  object); a key that may be missing is an \<open>option\<close> field, so that \<^verbatim>\<open>d[key]\<close> can
  raise \<^verbatim>\<open>KeyError\<close> and \<^verbatim>\<open>d.get(key, default)\<close> can take its default. The backend
  answers every request and keeps the websocket open: an exception raised inside the
  HTTP or websocket library is not part of the model.
\<close>

type_synonym bytes = "8 word list"

record 'a response =
  status_code :: int
  resp_text :: string
  resp_body :: 'a

record message =
  msg_type :: "json option"
  msg_data :: "dict option"

record descriptor =
  filename :: "string option"
  subfolder :: "string option"
  image_type :: "string option"

record node_output =
  images :: "descriptor list option"

record history_entry =
  outputs :: "(string \<times> node_output) list option"

type_synonym history = "(string \<times> history_entry) list"

type_synonym view_params = "string \<times> string \<times> string"

record backend =
  post_prompt :: "json \<Rightarrow> string \<Rightarrow> (string \<times> string) list response"
  ws_messages :: "string \<Rightarrow> message list"
  ws_recv_done_at_deadline :: "string \<Rightarrow> bool"
  get_history :: "string \<Rightarrow> history response"
  get_view :: "view_params \<Rightarrow> bytes response"

subsection \<open>\_create\_workflow\<close>

definition create_workflow :: "string \<Rightarrow> string \<Rightarrow> int \<Rightarrow> int \<Rightarrow> int \<Rightarrow> json" where
  "create_workflow prompt negative_prompt seed width height =
    JDict
      [(''3'', JDict
          [(''inputs'', JDict
              [(''seed'', JInt seed),
               (''steps'', JInt 15),
               (''cfg'', JFloat (15 / 2)),
               (''sampler_name'', JStr ''euler_a''),
               (''scheduler'', JStr ''normal''),
               (''denoise'', JInt 1),
               (''model'', JList [JStr ''4'', JInt 0]),
               (''positive'', JList [JStr ''6'', JInt 0]),
               (''negative'', JList [JStr ''7'', JInt 0]),
               (''latent_image'', JList [JStr ''5'', JInt 0])]),
           (''class_type'', JStr ''KSampler'')]),
       (''4'', JDict
          [(''inputs'', JDict [(''ckpt_name'', JStr ''v1-5-pruned-emaonly.safetensors'')]),
           (''class_type'', JStr ''CheckpointLoaderSimple'')]),
       (''5'', JDict
          [(''inputs'', JDict
              [(''width'', JInt width), (''height'', JInt height), (''batch_size'', JInt 1)]),
           (''class_type'', JStr ''EmptyLatentImage'')]),
       (''6'', JDict
          [(''inputs'', JDict [(''text'', JStr prompt), (''clip'', JList [JStr ''4'', JInt 1])]),
           (''class_type'', JStr ''CLIPTextEncode'')]),
       (''7'', JDict
          [(''inputs'', JDict
              [(''text'', JStr negative_prompt), (''clip'', JList [JStr ''4'', JInt 1])]),
           (''class_type'', JStr ''CLIPTextEncode'')]),
       (''8'', JDict
          [(''inputs'', JDict
              [(''samples'', JList [JStr ''3'', JInt 0]), (''vae'', JList [JStr ''4'', JInt 2])]),
           (''class_type'', JStr ''VAEDecode'')]),
       (''9'', JDict
          [(''inputs'', JDict
              [(''filename_prefix'', JStr ''poc_sprite''),
               (''images'', JList [JStr ''8'', JInt 0])]),
           (''class_type'', JStr ''SaveImage'')])]"

subsection \<open>\_queue\_prompt\<close>

definition queue_prompt :: "backend \<Rightarrow> json \<Rightarrow> string \<Rightarrow> error + string" where
  "queue_prompt B workflow client_id =
    (let response = post_prompt B workflow client_id in
     if status_code response \<noteq> 200
     then Inl (QueueFailed (status_code response) (resp_text response))
     else case map_of (resp_body response) ''prompt_id'' of
            None \<Rightarrow> Inl (KeyError ''prompt_id'')
          | Some prompt_id \<Rightarrow> Inr prompt_id)"

subsection \<open>\_wait\_for\_completion\<close>

text \<open>
  The coroutine races a 120 second timer (\<open>timeout_task\<close>) against the next receive on
  the websocket (\<open>message_task\<close>). Its input is the list of messages that arrive before
  the timer fires, in channel order, and whether a further receive has completed at the
  wake-up at which the timer is found done (the timer is tested first, so that message is
  never read). The state records what the \<^verbatim>\<open>finally\<close> block and the
  \<^verbatim>\<open>async with\<close> leave behind: the two tasks and the connection. A cancellation
  of the coroutine itself from outside is not part of the model.
\<close>

datatype task = Pending | Done | Cancelled

record wait_state =
  ws_closed :: bool
  timeout_task :: task
  message_task :: "task option"

text \<open>\<^verbatim>\<open>task.cancel()\<close> changes a pending task only.\<close>

definition cancel :: "task \<Rightarrow> task" where
  "cancel t = (case t of Pending \<Rightarrow> Cancelled | Done \<Rightarrow> Done | Cancelled \<Rightarrow> Cancelled)"

fun wait_loop ::
  "string \<Rightarrow> message list \<Rightarrow> bool \<Rightarrow> wait_state \<Rightarrow> (error + unit) \<times> wait_state" where
  "wait_loop prompt_id [] late st =
     (Inl Timeout,
      st\<lparr>timeout_task := Done, message_task := Some (if late then Done else Pending)\<rparr>)"
| "wait_loop prompt_id (message # rest) late st =
     (let st1 = st\<lparr>message_task := None\<rparr>;
          data = (case msg_data message of None \<Rightarrow> [] | Some d \<Rightarrow> d)
      in if msg_type message = Some (JStr ''executing'')
            \<and> (map_of data ''node'' = None \<or> map_of data ''node'' = Some JNull)
            \<and> map_of data ''prompt_id'' = Some (JStr prompt_id)
         then (Inr (), st1\<lparr>timeout_task := cancel (timeout_task st1)\<rparr>)
         else if msg_type message = Some (JStr ''execution_error'')
         then (Inl (ExecutionError (msg_data message)), st1)
         else wait_loop prompt_id rest late st1)"

definition wait_for_completion ::
  "backend \<Rightarrow> string \<Rightarrow> string \<Rightarrow> (error + unit) \<times> wait_state" where
  "wait_for_completion B prompt_id client_id =
    (case wait_loop prompt_id (ws_messages B client_id) (ws_recv_done_at_deadline B client_id)
            \<lparr>ws_closed = False, timeout_task = Pending, message_task = None\<rparr> of
       (r, st) \<Rightarrow>
         (r, st\<lparr>timeout_task := cancel (timeout_task st),
                message_task := map_option cancel (message_task st),
                ws_closed := True\<rparr>))"

subsection \<open>\_get\_generated\_image\<close>

text \<open>
  The two nested loops. \<open>scan_images\<close> is the inner one over the descriptors of one
  node: \<open>Some\<close> when it leaves the function (with the bytes, or with an exception),
  \<open>None\<close> when it runs to its end. \<open>scan_outputs\<close> is the outer one over
  \<^verbatim>\<open>outputs.items()\<close>, with the \<^verbatim>\<open>raise\<close> that follows it.
\<close>

fun scan_images :: "backend \<Rightarrow> descriptor list \<Rightarrow> (error + bytes) option" where
  "scan_images B [] = None"
| "scan_images B (img # rest) =
     (case filename img of
        None \<Rightarrow> Some (Inl (KeyError ''filename''))
      | Some fname \<Rightarrow>
          let sub = (case subfolder img of None \<Rightarrow> [] | Some s \<Rightarrow> s);
              ty = (case image_type img of None \<Rightarrow> ''output'' | Some t \<Rightarrow> t);
              image_response = get_view B (fname, sub, ty)
          in if status_code image_response = 200 then Some (Inr (resp_body image_response))
             else scan_images B rest)"

fun scan_outputs :: "backend \<Rightarrow> (string \<times> node_output) list \<Rightarrow> error + bytes" where
  "scan_outputs B [] = Inl NoImagesFound"
| "scan_outputs B ((node_id, node_out) # rest) =
     (case images node_out of
        None \<Rightarrow> scan_outputs B rest
      | Some imgs \<Rightarrow>
          (case scan_images B imgs of
             Some r \<Rightarrow> r
           | None \<Rightarrow> scan_outputs B rest))"

definition get_generated_image :: "backend \<Rightarrow> string \<Rightarrow> error + bytes" where
  "get_generated_image B prompt_id =
    (let history_response = get_history B prompt_id in
     if status_code history_response \<noteq> 200
     then Inl (HistoryFailed (status_code history_response))
     else
       let outs =
         (case map_of (resp_body history_response) prompt_id of
            None \<Rightarrow> []
          | Some entry \<Rightarrow> (case outputs entry of None \<Rightarrow> [] | Some os \<Rightarrow> os))
       in scan_outputs B outs)"

subsection \<open>generate\_image\<close>

text \<open>
  What \<open>generate_image\<close> gives its caller is the pair of the line it prints, if any, and
  the value it returns: the bytes, or \<^verbatim>\<open>None\<close>. The client id comes from the clock
  and a random generator and is a parameter here.
\<close>

datatype console_line = GenerationFailed error

definition generate_image ::
  "backend \<Rightarrow> string \<Rightarrow> string \<Rightarrow> string \<Rightarrow> int \<Rightarrow> int \<Rightarrow> int
    \<Rightarrow> console_line list \<times> bytes option" where
  "generate_image B client_id prompt negative_prompt seed width height =
    (let workflow = create_workflow prompt negative_prompt seed width height in
     case
       (case queue_prompt B workflow client_id of
          Inl e \<Rightarrow> Inl e
        | Inr prompt_id \<Rightarrow>
            (case fst (wait_for_completion B prompt_id client_id) of
               Inl e \<Rightarrow> Inl e
             | Inr _ \<Rightarrow> get_generated_image B prompt_id)) of
       Inl e \<Rightarrow> ([GenerationFailed e], None)
     | Inr image_data \<Rightarrow> ([], Some image_data))"

subsection \<open>Tracking, in the words of the specification\<close>






subsection \<open>Fetching, in the words of the specification\<close>

text \<open>
  The image descriptors of a job are those of all its output nodes, in the order of the
  history response. The retrieval of a descriptor is the \<^verbatim>\<open>/view\<close> request for its
  file name, subfolder (default empty) and type (default \<^verbatim>\<open>output\<close>); it succeeds with
  the body of a 200 response, and it fails when the descriptor has a file name and the
  response has another status.
\<close>

definition node_images :: "string \<times> node_output \<Rightarrow> descriptor list" where
  "node_images entry = (case images (snd entry) of None \<Rightarrow> [] | Some imgs \<Rightarrow> imgs)"

definition descriptors_of :: "history \<Rightarrow> string \<Rightarrow> descriptor list" where
  "descriptors_of hist job_id =
    (case map_of hist job_id of
       None \<Rightarrow> []
     | Some entry \<Rightarrow>
         (case outputs entry of None \<Rightarrow> [] | Some outs \<Rightarrow> concat (map node_images outs)))"

definition retrieved :: "backend \<Rightarrow> descriptor \<Rightarrow> bytes option" where
  "retrieved B d =
    (case filename d of
       None \<Rightarrow> None
     | Some fname \<Rightarrow>
         let r = get_view B (fname, case subfolder d of None \<Rightarrow> [] | Some s \<Rightarrow> s,
                             case image_type d of None \<Rightarrow> ''output'' | Some t \<Rightarrow> t)
         in if status_code r = 200 then Some (resp_body r) else None)"

definition retrieval_fails :: "backend \<Rightarrow> descriptor \<Rightarrow> bool" where
  "retrieval_fails B d \<longleftrightarrow> filename d \<noteq> None \<and> retrieved B d = None"

subsection \<open>Similarity, in the words of the specification\<close>

text \<open>
  The score of two adjacent frames is the sum over all bins of the smaller of the two counts,
  divided by the sum of the first frame's counts; the visual similarity of a list of frames
  is the average of that score over all adjacent pairs. A list of frames is \<open>scorable\<close>
  when every frame that has a successor has a histogram with a positive sum, so that no
  score divides by zero.
\<close>

definition histogram_intersection :: "nat list \<Rightarrow> nat list \<Rightarrow> rat" where
  "histogram_intersection h1 h2 = of_nat (sum_list (map2 min h1 h2)) / of_nat (sum_list h1)"

definition average_similarity :: "nat list list \<Rightarrow> rat" where
  "average_similarity hs =
     sum_list (map2 histogram_intersection (butlast hs) (tl hs)) / of_nat (length hs - 1)"

definition scorable :: "pillow \<Rightarrow> image list \<Rightarrow> bool" where
  "scorable P frames \<longleftrightarrow> list_all (\<lambda>f. 0 < sum_list (histogram P f)) (butlast frames)"

section \<open>Example values\<close>

text \<open>
  Concrete inputs on which the theorems below are evaluated: an image of one colour, and
  one choice of the library's numeric functions (a resampling that repeats the top-left
  pixel, a mixing that takes the pasted pixel, and a two-bin histogram of the alpha band
  of an image of one colour); three websocket messages; and backends that acknowledge
  every prompt with the prompt id \<^verbatim>\<open>p1\<close>, send a given list of messages, and answer
  the history and view requests as given.
\<close>

definition flat_image :: "nat \<times> nat \<Rightarrow> string \<Rightarrow> pixel \<Rightarrow> image" where
  "flat_image sz m c = \<lparr>im_size = sz, im_mode = m, im_pixels = (\<lambda>_. c)\<rparr>"

definition example_pillow :: pillow where
  "example_pillow =
    \<lparr>lanczos = (\<lambda>im sz xy. im_pixels im (0, 0)),
     blend = (\<lambda>a d s. s),
     histogram = (\<lambda>im.
       let n = fst (im_size im) * snd (im_size im)
       in if alpha (im_pixels im (0, 0)) = 0 then [n, 0] else [0, n])\<rparr>"

definition executing_msg :: "json \<Rightarrow> string \<Rightarrow> message" where
  "executing_msg node pid =
    \<lparr>msg_type = Some (JStr ''executing''),
     msg_data = Some [(''node'', node), (''prompt_id'', JStr pid)]\<rparr>"


definition error_msg :: message where
  "error_msg =
    \<lparr>msg_type = Some (JStr ''execution_error''),
     msg_data = Some [(''exception_message'', JStr ''out of memory'')]\<rparr>"


definition stub_backend ::
  "int \<Rightarrow> message list \<Rightarrow> history response \<Rightarrow> (view_params \<Rightarrow> bytes response) \<Rightarrow> backend" where
  "stub_backend ack_status msgs hist view =
    \<lparr>post_prompt = (\<lambda>workflow client_id.
       \<lparr>status_code = ack_status, resp_text = ''ack'', resp_body = [(''prompt_id'', ''p1'')]\<rparr>),
     ws_messages = (\<lambda>client_id. msgs),
     ws_recv_done_at_deadline = (\<lambda>client_id. False),
     get_history = (\<lambda>prompt_id. hist),
     get_view = view\<rparr>"

definition png_descriptor :: "string \<Rightarrow> descriptor" where
  "png_descriptor fname = \<lparr>filename = Some fname, subfolder = Some [], image_type = None\<rparr>"

definition history_of :: "descriptor list \<Rightarrow> history response" where
  "history_of descs =
    \<lparr>status_code = 200, resp_text = [],
     resp_body = [(''p1'', \<lparr>outputs = Some [(''8'', \<lparr>images = None\<rparr>),
                                             (''9'', \<lparr>images = Some descs\<rparr>)]\<rparr>)]\<rparr>"

definition view_only :: "string \<Rightarrow> view_params \<Rightarrow> bytes response" where
  "view_only fname params =
    (if fst params = fname then \<lparr>status_code = 200, resp_text = [], resp_body = [137, 80, 78, 71]\<rparr>
     else \<lparr>status_code = 404, resp_text = [], resp_body = []\<rparr>)"

section \<open>Properties of the packer\<close>

text \<open>
  Claim C6. \<open>pack\<close> on an empty frame list raises the \<^verbatim>\<open>ValueError\<close> that names the
  empty frame list, whatever the entity and animation names (and whatever the imaging
  library computes); it returns neither a sheet nor metadata.
\<close>

theorem pack_empty:
  "pack P [] entity_name animation_name = Inl (ValueError ''Cannot pack empty frame list'')"
  by (simp add: pack_def)

subsection \<open>Layout of equal-size frames\<close>

lemma size_of_paste: "size_of (paste P canvas im box msk) = size_of canvas"
  by (simp add: paste_def size_of_def)

lemma size_of_new_image:
  "0 \<le> fst sz \<Longrightarrow> 0 \<le> snd sz \<Longrightarrow>
   \<exists>im. new_image m sz c = Inr im \<and> size_of im = sz \<and> im_mode im = m
     \<and> im_pixels im = (\<lambda>_. c)"
  by (simp add: new_image_def size_of_def)

lemma size_of_nonneg: "size_of f = (w, h) \<Longrightarrow> 0 \<le> w \<and> 0 \<le> h"
  by (auto simp: size_of_def)

text \<open>
  With every frame of the sprite size the loop never resizes, never fails and leaves the
  size of the sheet alone; frame \<open>j\<close> of the rest gets the grid cell of index \<open>i + j\<close>.
\<close>

lemma pack_frames_uniform:
  "list_all (\<lambda>f. size_of f = sprite) frames \<Longrightarrow>
   \<exists>sheet'. pack_frames P sprite cols i frames sheet md =
       Inr (sheet', md @ map (\<lambda>j.
          \<lparr>meta_x = ((i + int j) mod cols) * fst sprite,
           meta_y = ((i + int j) div cols) * snd sprite,
           meta_w = fst sprite, meta_h = snd sprite, duration = 150\<rparr>) [0..<length frames])
     \<and> size_of sheet' = size_of sheet"
proof (induction frames arbitrary: i sheet md)
  case Nil
  then show ?case by simp
next
  case (Cons f frames)
  let ?m = "\<lambda>k. \<lparr>meta_x = (k mod cols) * fst sprite, meta_y = (k div cols) * snd sprite,
           meta_w = fst sprite, meta_h = snd sprite, duration = 150\<rparr>"
  have eq: "map (\<lambda>j. ?m (i + int j)) [0..<length (f # frames)] =
      ?m i # map (\<lambda>j. ?m (i + 1 + int j)) [0..<length frames]"
    by (simp add: upt_conv_Cons map_Suc_upt [symmetric] add.assoc del: upt_Suc)
  from Cons.prems have f: "size_of f = sprite"
    and rest: "list_all (\<lambda>f. size_of f = sprite) frames"
    by simp_all
  from Cons.IH [OF rest, of "i + 1"
      "paste P sheet f ((i mod cols) * fst sprite, (i div cols) * snd sprite) None"
      "md @ [?m i]"]
  show ?case
    unfolding eq using f by (simp add: Let_def size_of_paste)
qed

lemma ceil_half: "\<lceil>(of_int n :: rat) / 2\<rceil> = (n + 1) div 2"
proof -
  have "\<lceil>(of_int n :: rat) / of_int 2\<rceil> = - (- n div 2)"
    by (rule ceiling_divide_eq_div)
  also have "\<dots> = (n + 1) div 2" by presburger
  finally show ?thesis by simp
qed

text \<open>
  Claim C5. For a non-empty list of \<open>n\<close> frames that all have size \<open>w \<times> h\<close>, \<open>pack\<close>
  returns a sheet of size \<open>(2w, \<lceil>n/2\<rceil> h)\<close> when \<open>n > 1\<close> and \<open>(w, h)\<close> when \<open>n = 1\<close>;
  the metadata has one entry per frame, and the entry of frame \<open>i\<close> has position
  \<open>((i mod 2) w, (i div 2) h)\<close>, size \<open>(w, h)\<close> and duration 150.
\<close>

theorem pack_uniform:
  assumes ne: "frames \<noteq> []"
    and uni: "\<forall>f\<in>set frames. size_of f = (w, h)"
  shows "\<exists>sheet md fm.
      pack P frames entity_name animation_name = Inr (sheet, md)
    \<and> size_of sheet =
        (if length frames > 1 then (2 * w, \<lceil>of_nat (length frames) / (2::rat)\<rceil> * h)
         else (w, h))
    \<and> animations md = [(animation_name, fm)]
    \<and> length fm = length frames
    \<and> (\<forall>i<length frames. fm ! i =
          \<lparr>meta_x = (int i mod 2) * w, meta_y = (int i div 2) * h,
           meta_w = w, meta_h = h, duration = 150\<rparr>)"
proof -
  obtain f0 rest where fr: "frames = f0 # rest"
    using ne by (cases frames) auto
  define n where "n = int (length frames)"
  define cols where "cols = (if n > 1 then 2 else (1::int))"
  define rows where "rows = (n + cols - 1) div cols"
  have f0: "size_of f0 = (w, h)" using uni fr by simp
  have wh: "0 \<le> w" "0 \<le> h" using size_of_nonneg [OF f0] by simp_all
  have n1: "1 \<le> n" using fr by (simp add: n_def)
  have rows_nonneg: "0 \<le> rows"
    using n1 by (simp add: rows_def cols_def pos_imp_zdiv_nonneg_iff)
  have rows_eq: "rows = (if n > 1 then \<lceil>(of_int n :: rat) / 2\<rceil> else 1)"
    using n1 by (simp add: rows_def cols_def ceil_half add.commute)
  obtain sheet0 where sheet0: "new_image ''RGBA'' (w * cols, h * rows) transparent = Inr sheet0"
    and sz0: "size_of sheet0 = (w * cols, h * rows)"
    using size_of_new_image [of "(w * cols, h * rows)" "''RGBA''" transparent] wh rows_nonneg
    by (auto simp: cols_def)
  have all: "list_all (\<lambda>f. size_of f = (w, h)) frames"
    using uni by (simp add: list_all_iff)
  let ?m = "\<lambda>k. \<lparr>meta_x = (k mod cols) * w, meta_y = (k div cols) * h,
           meta_w = w, meta_h = h, duration = 150\<rparr>"
  let ?fm = "map (\<lambda>j. ?m (int j)) [0..<length frames]"
  obtain sheet' where loop: "pack_frames P (w, h) cols 0 frames sheet0 [] = Inr (sheet', ?fm)"
    and sz': "size_of sheet' = size_of sheet0"
    using pack_frames_uniform [OF all, of P cols 0 sheet0 "[]"] by auto
  let ?md = "\<lparr>animations = [(animation_name, ?fm)], entityType = entity_name,
              spriteSize = (w, h), totalFrames = n\<rparr>"
  have res: "pack P frames entity_name animation_name = Inr (sheet', ?md)"
    using sheet0 loop f0 unfolding pack_def fr [symmetric] n_def cols_def rows_def
    by (simp add: fr Let_def)
  have size: "size_of sheet' =
      (if length frames > 1 then (2 * w, \<lceil>of_nat (length frames) / (2::rat)\<rceil> * h)
       else (w, h))"
    using sz' sz0 rows_eq by (simp add: cols_def n_def mult.commute)
  have nth: "?fm ! i = \<lparr>meta_x = (int i mod 2) * w, meta_y = (int i div 2) * h,
           meta_w = w, meta_h = h, duration = 150\<rparr>" if "i < length frames" for i
  proof (cases "n > 1")
    case True
    then show ?thesis using that by (simp add: cols_def)
  next
    case False
    then have "i = 0" using that by (simp add: n_def)
    then show ?thesis using that False by (simp add: cols_def)
  qed
  show ?thesis
    using res size nth by (intro exI [of _ sheet'] exI [of _ ?md] exI [of _ ?fm]) simp
qed

lemma list3: "length xs = 3 \<Longrightarrow> xs = [xs ! 0, xs ! 1, xs ! 2]"
  by (cases xs; cases "tl xs"; cases "tl (tl xs)") auto

theorem pack_uniform_witness:
  "\<exists>sheet md.
      pack example_pillow (replicate 3 (flat_image (2, 3) ''RGBA'' (255, 0, 0, 255)))
        ''goblin'' ''walk'' = Inr (sheet, md)
    \<and> size_of sheet = (4, 6)
    \<and> animations md = [(''walk'',
          [\<lparr>meta_x = 0, meta_y = 0, meta_w = 2, meta_h = 3, duration = 150\<rparr>,
           \<lparr>meta_x = 2, meta_y = 0, meta_w = 2, meta_h = 3, duration = 150\<rparr>,
           \<lparr>meta_x = 0, meta_y = 3, meta_w = 2, meta_h = 3, duration = 150\<rparr>])]"
proof -
  let ?f = "flat_image (2, 3) ''RGBA'' (255, 0, 0, 255)"
  have ne: "replicate 3 ?f \<noteq> []" by simp
  have uni: "\<forall>f\<in>set (replicate 3 ?f). size_of f = (2, 3)"
    by (simp add: size_of_def flat_image_def)
  have c: "\<lceil>(3::rat) / 2\<rceil> = 2" by (simp add: ceiling_eq_iff)
  from pack_uniform [OF ne uni, of example_pillow "''goblin''" "''walk''"]
  obtain sheet md fm where
    r: "pack example_pillow (replicate 3 ?f) ''goblin'' ''walk'' = Inr (sheet, md)"
    and s: "size_of sheet = (4, 6)"
    and a: "animations md = [(''walk'', fm)]"
    and l: "length fm = 3"
    and n: "\<forall>i<3. fm ! i = \<lparr>meta_x = (int i mod 2) * 2, meta_y = (int i div 2) * 3,
           meta_w = 2, meta_h = 3, duration = 150\<rparr>"
    by (auto simp: c)
  have "fm = [fm ! 0, fm ! 1, fm ! 2]" using l by (rule list3)
  with n have "fm = [\<lparr>meta_x = 0, meta_y = 0, meta_w = 2, meta_h = 3, duration = 150\<rparr>,
           \<lparr>meta_x = 2, meta_y = 0, meta_w = 2, meta_h = 3, duration = 150\<rparr>,
           \<lparr>meta_x = 0, meta_y = 3, meta_w = 2, meta_h = 3, duration = 150\<rparr>]"
    by simp
  with r s a show ?thesis by simp
qed

section \<open>Properties of the seed derivation\<close>

subsection \<open>The base seed is always defined\<close>

lemma hex_digit_hexchar: "n < 16 \<Longrightarrow> hex_digit (hexchar n) = Some (int n)"
proof -
  assume "n < 16"
  then have "n \<in> {0, 1, 2, 3, 4, 5, 6, 7, 8, 9, 10, 11, 12, 13, 14, 15}"
    by simp arith
  then show ?thesis
    by (auto simp: hexchar_def hex_digit_def)
qed

lemma hex_value_hexdigest: "\<exists>v. hex_value acc (hexdigest bs) = Some v"
proof (induction bs arbitrary: acc)
  case Nil
  then show ?case by (simp add: hexdigest_def)
next
  case (Cons b bs)
  have 1: "unat b div 16 < 16" using unsigned_less [of b, where ?'a = nat] by simp
  have 2: "unat b mod 16 < 16" by simp
  have "hexdigest (b # bs) = hexchar (unat b div 16) # hexchar (unat b mod 16) # hexdigest bs"
    by (simp add: hexdigest_def)
  then show ?case
    using Cons.IH by (simp add: hex_digit_hexchar [OF 1] hex_digit_hexchar [OF 2])
qed

lemma take_hexdigest: "take (2 * n) (hexdigest bs) = hexdigest (take n bs)"
proof (induction bs arbitrary: n)
  case Nil
  then show ?case by (simp add: hexdigest_def)
next
  case (Cons b bs)
  show ?case
  proof (cases n)
    case 0
    then show ?thesis by (simp add: hexdigest_def)
  next
    case (Suc m)
    then show ?thesis using Cons.IH [of m] by (simp add: hexdigest_def)
  qed
qed

lemma md5_nonempty: "take 4 (md5 msg) \<noteq> []"
  by (simp add: md5_def Let_def le_bytes_def split: prod.splits)

lemma hexdigest_nonempty: "bs \<noteq> [] \<Longrightarrow> hexdigest bs \<noteq> []"
  by (cases bs) (simp_all add: hexdigest_def)

lemma base_seed_defined:
  "\<exists>b. int_base16 (take 8 (hexdigest (md5 (encode entity_name)))) = Inr b"
proof -
  have t: "take 8 (hexdigest (md5 (encode entity_name))) =
      hexdigest (take 4 (md5 (encode entity_name)))"
    using take_hexdigest [of 4] by simp
  obtain v where "hex_value 0 (hexdigest (take 4 (md5 (encode entity_name)))) = Some v"
    using hex_value_hexdigest by blast
  then show ?thesis
    unfolding t int_base16_def using hexdigest_nonempty [OF md5_nonempty] by simp
qed

lemma get_sprite_seed_base:
  "\<exists>b. \<forall>animation frame.
     get_sprite_seed entity_name animation frame =
       Inr (b + dict_get animation_offset animation 0 + frame)"
  using base_seed_defined [of entity_name] by (auto simp: get_sprite_seed_def)

subsection \<open>Seeds of one entity\<close>

text \<open>
  Claim C4, as amended. \<open>get_sprite_seed\<close> is a function of the entity name, the animation
  name and the frame index alone, and it always returns a seed (the digest always parses).
  For one entity and animation, different frame indices give different seeds. For one
  entity, two different animations among walk, idle and attack give different seeds as
  long as both frame indices lie in \<open>0..999\<close>: the offsets 0, 1000 and 2000 are 1000
  apart, and a name outside the table takes idle's offset 0.
\<close>

theorem seed_properties:
  "(\<exists>s. get_sprite_seed e a f = Inr s)
   \<and> (f \<noteq> f' \<longrightarrow> get_sprite_seed e a f \<noteq> get_sprite_seed e a f')
   \<and> (a \<in> {''walk'', ''idle'', ''attack''} \<and> a' \<in> {''walk'', ''idle'', ''attack''} \<and> a \<noteq> a'
        \<and> 0 \<le> f \<and> f < 1000 \<and> 0 \<le> f' \<and> f' < 1000
      \<longrightarrow> get_sprite_seed e a f \<noteq> get_sprite_seed e a' f')"
proof -
  obtain b where b: "\<And>animation frame.
      get_sprite_seed e animation frame =
        Inr (b + dict_get animation_offset animation 0 + frame)"
    using get_sprite_seed_base [of e] by blast
  have off: "dict_get animation_offset ''walk'' 0 = 1000"
    "dict_get animation_offset ''idle'' 0 = 0"
    "dict_get animation_offset ''attack'' 0 = 2000"
    by (simp_all add: dict_get_def animation_offset_def)
  show ?thesis
    by (auto simp: b off)
qed

theorem seed_properties_witness:
  "(\<exists>s. get_sprite_seed ''goblin'' ''walk'' 0 = Inr s)
   \<and> get_sprite_seed ''goblin'' ''walk'' 0 \<noteq> get_sprite_seed ''goblin'' ''walk'' 1
   \<and> get_sprite_seed ''goblin'' ''walk'' 0 \<noteq> get_sprite_seed ''goblin'' ''idle'' 999"
  using seed_properties [of "''goblin''" "''walk''" 0 1 "''idle''"]
    seed_properties [of "''goblin''" "''walk''" 0 999 "''idle''"]
  by simp

lemma goblin_digest: "take 8 (hexdigest (md5 (encode ''goblin''))) = ''62b39a8b''"
  by code_simp

lemma goblin_seed:
  "get_sprite_seed ''goblin'' a f = Inr (1655937675 + dict_get animation_offset a 0 + f)"
  by (simp add: get_sprite_seed_def goblin_digest int_base16_def hex_digit_def)

text \<open>
  Claim C4 as stated fails: different animations of one entity do collide. Frame 1000 of
  idle has the seed of frame 0 of walk, and an animation name outside the table (here
  \<^verbatim>\<open>run\<close>) has the seeds of idle at every frame.
\<close>

theorem seed_bands_overlap:
  "get_sprite_seed ''goblin'' ''idle'' 1000 = get_sprite_seed ''goblin'' ''walk'' 0
   \<and> get_sprite_seed ''goblin'' ''run'' 3 = get_sprite_seed ''goblin'' ''idle'' 3
   \<and> get_sprite_seed ''goblin'' ''walk'' 0 = Inr 1655938675"
  by (simp add: goblin_seed dict_get_def animation_offset_def)

section \<open>Properties of the client\<close>

subsection \<open>Tracking a job\<close>














subsection \<open>Fetching the image\<close>

lemma scan_images_step:
  "scan_images B (d # rest) =
     (case filename d of
        None \<Rightarrow> Some (Inl (KeyError ''filename''))
      | Some fname \<Rightarrow>
          (case retrieved B d of Some bs \<Rightarrow> Some (Inr bs) | None \<Rightarrow> scan_images B rest))"
  by (simp add: retrieved_def Let_def split: option.splits)

lemma scan_images_append:
  "scan_images B (xs @ ys) =
     (case scan_images B xs of Some r \<Rightarrow> Some r | None \<Rightarrow> scan_images B ys)"
  by (induction xs) (simp_all add: Let_def split: option.splits)

lemma scan_outputs_flat:
  "scan_outputs B outs =
     (case scan_images B (concat (map node_images outs)) of
        Some r \<Rightarrow> r
      | None \<Rightarrow> Inl NoImagesFound)"
proof (induction outs)
  case Nil
  then show ?case by simp
next
  case (Cons a outs)
  obtain node_id out where a: "a = (node_id, out)" by (cases a)
  show ?case
    using Cons.IH by (simp add: a node_images_def scan_images_append split: option.splits)
qed

lemma scan_images_skip:
  "list_all (retrieval_fails B) pre \<Longrightarrow> scan_images B (pre @ rest) = scan_images B rest"
proof (induction pre)
  case Nil
  then show ?case by simp
next
  case (Cons d pre)
  then show ?case
    using scan_images_step [of B d "pre @ rest"] by (auto simp: retrieval_fails_def)
qed

lemma scan_images_hit:
  "retrieved B d = Some bs \<Longrightarrow> scan_images B (d # post) = Some (Inr bs)"
  using scan_images_step [of B d post] by (auto simp: retrieved_def split: option.splits)

lemma get_generated_image_flat:
  "status_code (get_history B prompt_id) = 200 \<Longrightarrow>
   get_generated_image B prompt_id =
     (case scan_images B (descriptors_of (resp_body (get_history B prompt_id)) prompt_id) of
        Some r \<Rightarrow> r
      | None \<Rightarrow> Inl NoImagesFound)"
  by (simp add: get_generated_image_def Let_def descriptors_of_def scan_outputs_flat
      split: option.splits)

text \<open>
  Claim C3, as amended. A history response with a status other than 200 raises the
  history failure. Otherwise \<open>get_generated_image\<close> scans the descriptors of all output
  nodes in the order of the response and returns the bytes of the first one whose
  retrieval succeeds, the retrievals before it having failed. It raises one and the same
  exception, \<^verbatim>\<open>No images found in output\<close>, when the history has no record of the job,
  when the record has no descriptors, and when the retrieval of every descriptor fails.
\<close>

theorem get_generated_image_outcome:
  "(status_code (get_history B prompt_id) \<noteq> 200
      \<longrightarrow> get_generated_image B prompt_id
            = Inl (HistoryFailed (status_code (get_history B prompt_id))))
   \<and> (status_code (get_history B prompt_id) = 200 \<longrightarrow>
        (\<forall>pre d post bs.
            descriptors_of (resp_body (get_history B prompt_id)) prompt_id = pre @ d # post
              \<and> list_all (retrieval_fails B) pre \<and> retrieved B d = Some bs
            \<longrightarrow> get_generated_image B prompt_id = Inr bs)
        \<and> (map_of (resp_body (get_history B prompt_id)) prompt_id = None
            \<longrightarrow> get_generated_image B prompt_id = Inl NoImagesFound)
        \<and> (descriptors_of (resp_body (get_history B prompt_id)) prompt_id = []
            \<longrightarrow> get_generated_image B prompt_id = Inl NoImagesFound)
        \<and> (list_all (retrieval_fails B)
              (descriptors_of (resp_body (get_history B prompt_id)) prompt_id)
            \<longrightarrow> get_generated_image B prompt_id = Inl NoImagesFound))"
proof (intro conjI impI allI)
  assume "status_code (get_history B prompt_id) \<noteq> 200"
  then show "get_generated_image B prompt_id
            = Inl (HistoryFailed (status_code (get_history B prompt_id)))"
    by (simp add: get_generated_image_def Let_def)
next
  fix pre d post bs
  assume ok: "status_code (get_history B prompt_id) = 200"
    and "descriptors_of (resp_body (get_history B prompt_id)) prompt_id = pre @ d # post
              \<and> list_all (retrieval_fails B) pre \<and> retrieved B d = Some bs"
  then show "get_generated_image B prompt_id = Inr bs"
    by (simp add: get_generated_image_flat scan_images_skip scan_images_hit
        del: scan_images.simps)
next
  assume ok: "status_code (get_history B prompt_id) = 200"
    and "map_of (resp_body (get_history B prompt_id)) prompt_id = None"
  then show "get_generated_image B prompt_id = Inl NoImagesFound"
    by (simp add: get_generated_image_flat descriptors_of_def)
next
  assume ok: "status_code (get_history B prompt_id) = 200"
    and "descriptors_of (resp_body (get_history B prompt_id)) prompt_id = []"
  then show "get_generated_image B prompt_id = Inl NoImagesFound"
    by (simp add: get_generated_image_flat)
next
  assume ok: "status_code (get_history B prompt_id) = 200"
    and "list_all (retrieval_fails B)
              (descriptors_of (resp_body (get_history B prompt_id)) prompt_id)"
  then show "get_generated_image B prompt_id = Inl NoImagesFound"
    using scan_images_skip [of B _ "[]"] by (simp add: get_generated_image_flat)
qed

lemma stub_backend_sel:
  "get_history (stub_backend a msgs hist view) p = hist"
  "get_view (stub_backend a msgs hist view) = view"
  "ws_messages (stub_backend a msgs hist view) c = msgs"
  "ws_recv_done_at_deadline (stub_backend a msgs hist view) c = False"
  "post_prompt (stub_backend a msgs hist view) w c =
     \<lparr>status_code = a, resp_text = ''ack'', resp_body = [(''prompt_id'', ''p1'')]\<rparr>"
  by (simp_all add: stub_backend_def)

lemma descriptors_of_history_of:
  "descriptors_of (resp_body (history_of descs)) ''p1'' = descs"
  "status_code (history_of descs) = 200"
  by (simp_all add: descriptors_of_def history_of_def node_images_def)

lemma retrieved_view_only:
  "retrieved (stub_backend a msgs hist (view_only fname)) (png_descriptor g) =
     (if g = fname then Some [137, 80, 78, 71] else None)"
  by (simp add: retrieved_def stub_backend_sel png_descriptor_def view_only_def)

theorem get_generated_image_outcome_witness:
  "get_generated_image
     (stub_backend 200 []
        (history_of [png_descriptor ''a.png'', png_descriptor ''b.png'', png_descriptor ''c.png''])
        (view_only ''b.png'')) ''p1'' = Inr [137, 80, 78, 71]
   \<and> get_generated_image
     (stub_backend 200 [] \<lparr>status_code = 500, resp_text = [], resp_body = []\<rparr>
        (view_only ''b.png'')) ''p1'' = Inl (HistoryFailed 500)
   \<and> get_generated_image
     (stub_backend 200 [] \<lparr>status_code = 200, resp_text = [], resp_body = []\<rparr>
        (view_only ''b.png'')) ''p1'' = Inl NoImagesFound"
proof -
  let ?B1 = "stub_backend 200 []
        (history_of [png_descriptor ''a.png'', png_descriptor ''b.png'', png_descriptor ''c.png''])
        (view_only ''b.png'')"
  let ?B2 = "stub_backend 200 [] \<lparr>status_code = 500, resp_text = [], resp_body = []\<rparr>
        (view_only ''b.png'')"
  let ?B3 = "stub_backend 200 [] \<lparr>status_code = 200, resp_text = [], resp_body = []\<rparr>
        (view_only ''b.png'')"
  have 1: "get_generated_image ?B1 ''p1'' = Inr [137, 80, 78, 71]"
  proof -
    have ok: "status_code (get_history ?B1 ''p1'') = 200"
      by (simp add: stub_backend_sel descriptors_of_history_of)
    have split: "descriptors_of (resp_body (get_history ?B1 ''p1'')) ''p1'' =
        [png_descriptor ''a.png''] @ png_descriptor ''b.png'' # [png_descriptor ''c.png'']"
      by (simp add: stub_backend_sel descriptors_of_history_of)
    have pre: "list_all (retrieval_fails ?B1) [png_descriptor ''a.png'']"
      by (simp add: retrieval_fails_def retrieved_view_only) (simp add: png_descriptor_def)
    have hit: "retrieved ?B1 (png_descriptor ''b.png'') = Some [137, 80, 78, 71]"
      by (simp add: retrieved_view_only)
    from get_generated_image_outcome [of ?B1 "''p1''"] ok split pre hit
    show ?thesis by blast
  qed
  have 2: "get_generated_image ?B2 ''p1'' = Inl (HistoryFailed 500)"
  proof -
    have "status_code (get_history ?B2 ''p1'') = 500" by (simp add: stub_backend_sel)
    with get_generated_image_outcome [of ?B2 "''p1''"] show ?thesis by simp
  qed
  have 3: "get_generated_image ?B3 ''p1'' = Inl NoImagesFound"
  proof -
    have "status_code (get_history ?B3 ''p1'') = 200"
      "map_of (resp_body (get_history ?B3 ''p1'')) ''p1'' = None"
      by (simp_all add: stub_backend_sel)
    with get_generated_image_outcome [of ?B3 "''p1''"] show ?thesis by blast
  qed
  from 1 2 3 show ?thesis by simp
qed

text \<open>
  Claim C3 as stated fails: the error for descriptors whose retrievals all fail is not
  distinct from the error for a record without descriptors. A history whose node has no
  descriptor, and a history whose only descriptor is answered with status 404, end in the
  same exception.
\<close>

theorem fetch_errors_coincide:
  "descriptors_of (resp_body (history_of [])) ''p1'' = []
   \<and> get_generated_image
         (stub_backend 200 [] (history_of []) (view_only ''b.png'')) ''p1''
       = Inl NoImagesFound
   \<and> descriptors_of (resp_body (history_of [png_descriptor ''a.png''])) ''p1''
       = [png_descriptor ''a.png'']
   \<and> status_code (view_only ''b.png'' (''a.png'', [], ''output'')) = 404
   \<and> get_generated_image
         (stub_backend 200 [] (history_of [png_descriptor ''a.png'']) (view_only ''b.png'')) ''p1''
       = Inl NoImagesFound"
proof -
  have a: "get_generated_image
         (stub_backend 200 [] (history_of []) (view_only ''b.png'')) ''p1''
       = Inl NoImagesFound"
    by (simp add: get_generated_image_def stub_backend_sel Let_def history_of_def)
  have b: "get_generated_image
         (stub_backend 200 [] (history_of [png_descriptor ''a.png'']) (view_only ''b.png'')) ''p1''
       = Inl NoImagesFound"
    by (simp add: get_generated_image_def stub_backend_sel Let_def history_of_def
        png_descriptor_def view_only_def)
  have c: "status_code (view_only ''b.png'' (''a.png'', [], ''output'')) = 404"
    by (simp add: view_only_def)
  from a b c show ?thesis
    by (simp add: descriptors_of_history_of)
qed

subsection \<open>The composed operation\<close>

text \<open>
  Claim C1, as amended. For every prompt, negative prompt, seed, width and height, the
  first stage of \<open>generate_image\<close> that fails (queueing, waiting, fetching; building the
  workflow cannot fail) ends the operation: the later stages have no part in the result.
  The error of that stage is printed on the console, and the caller is returned
  \<^verbatim>\<open>None\<close>, not the error. When no stage fails the caller is returned the bytes that
  were fetched and nothing is printed. There is no third outcome, so a partial result is
  never returned.
\<close>

theorem generate_image_outcome:
  fixes B client_id prompt negative_prompt seed width height
  defines "workflow \<equiv> create_workflow prompt negative_prompt seed width height"
    and "out \<equiv> generate_image B client_id prompt negative_prompt seed width height"
  shows
  "(\<forall>e. queue_prompt B workflow client_id = Inl e \<longrightarrow> out = ([GenerationFailed e], None))
   \<and> (\<forall>prompt_id e.
         queue_prompt B workflow client_id = Inr prompt_id
           \<and> fst (wait_for_completion B prompt_id client_id) = Inl e
         \<longrightarrow> out = ([GenerationFailed e], None))
   \<and> (\<forall>prompt_id e.
         queue_prompt B workflow client_id = Inr prompt_id
           \<and> fst (wait_for_completion B prompt_id client_id) = Inr ()
           \<and> get_generated_image B prompt_id = Inl e
         \<longrightarrow> out = ([GenerationFailed e], None))
   \<and> (\<forall>prompt_id image_data.
         queue_prompt B workflow client_id = Inr prompt_id
           \<and> fst (wait_for_completion B prompt_id client_id) = Inr ()
           \<and> get_generated_image B prompt_id = Inr image_data
         \<longrightarrow> out = ([], Some image_data))
   \<and> ((\<exists>e. out = ([GenerationFailed e], None)) \<or> (\<exists>image_data. out = ([], Some image_data)))"
  unfolding out_def workflow_def generate_image_def Let_def
  by (auto split: sum.splits)

theorem generate_image_outcome_witness:
  "generate_image
     (stub_backend 500 [executing_msg JNull ''p1''] (history_of [png_descriptor ''b.png''])
        (view_only ''b.png''))
     ''c1'' ''goblin'' ''blurry'' 42 128 128 = ([GenerationFailed (QueueFailed 500 ''ack'')], None)
   \<and> generate_image
     (stub_backend 200 [error_msg, executing_msg JNull ''p1''] (history_of [png_descriptor ''b.png''])
        (view_only ''b.png''))
     ''c1'' ''goblin'' ''blurry'' 42 128 128
       = ([GenerationFailed (ExecutionError (msg_data error_msg))], None)
   \<and> generate_image
     (stub_backend 200 [executing_msg JNull ''p1''] (history_of [png_descriptor ''a.png''])
        (view_only ''b.png''))
     ''c1'' ''goblin'' ''blurry'' 42 128 128 = ([GenerationFailed NoImagesFound], None)
   \<and> generate_image
     (stub_backend 200 [executing_msg JNull ''p1''] (history_of [png_descriptor ''b.png''])
        (view_only ''b.png''))
     ''c1'' ''goblin'' ''blurry'' 42 128 128 = ([], Some [137, 80, 78, 71])"
proof -
  let ?w = "create_workflow ''goblin'' ''blurry'' 42 128 128"
  have q: "\<And>msgs hist view. queue_prompt (stub_backend 200 msgs hist view) ?w ''c1'' = Inr ''p1''"
    "\<And>msgs hist view. queue_prompt (stub_backend 500 msgs hist view) ?w ''c1''
       = Inl (QueueFailed 500 ''ack'')"
    by (simp_all add: queue_prompt_def stub_backend_sel)
  have w: "\<And>a hist view. fst (wait_for_completion
        (stub_backend a [executing_msg JNull ''p1''] hist view) ''p1'' ''c1'') = Inr ()"
    "\<And>a hist view. fst (wait_for_completion
        (stub_backend a [error_msg, executing_msg JNull ''p1''] hist view) ''p1'' ''c1'')
       = Inl (ExecutionError (msg_data error_msg))"
    by (simp_all add: wait_for_completion_def stub_backend_sel executing_msg_def error_msg_def
        Let_def cancel_def)
  have g: "\<And>a msgs. get_generated_image
        (stub_backend a msgs (history_of [png_descriptor ''a.png'']) (view_only ''b.png'')) ''p1''
       = Inl NoImagesFound"
    "\<And>a msgs. get_generated_image
        (stub_backend a msgs (history_of [png_descriptor ''b.png'']) (view_only ''b.png'')) ''p1''
       = Inr [137, 80, 78, 71]"
    by (simp_all add: get_generated_image_def stub_backend_sel Let_def history_of_def
        png_descriptor_def view_only_def)
  let ?B1 = "stub_backend 500 [executing_msg JNull ''p1''] (history_of [png_descriptor ''b.png''])
        (view_only ''b.png'')"
  let ?B2 = "stub_backend 200 [error_msg, executing_msg JNull ''p1'']
        (history_of [png_descriptor ''b.png'']) (view_only ''b.png'')"
  let ?B3 = "stub_backend 200 [executing_msg JNull ''p1''] (history_of [png_descriptor ''a.png''])
        (view_only ''b.png'')"
  let ?B4 = "stub_backend 200 [executing_msg JNull ''p1''] (history_of [png_descriptor ''b.png''])
        (view_only ''b.png'')"
  have 1: "generate_image ?B1 ''c1'' ''goblin'' ''blurry'' 42 128 128
      = ([GenerationFailed (QueueFailed 500 ''ack'')], None)"
    using generate_image_outcome [of ?B1 "''goblin''" "''blurry''" 42 128 128 "''c1''"] q(2)
    by blast
  have 2: "generate_image ?B2 ''c1'' ''goblin'' ''blurry'' 42 128 128
      = ([GenerationFailed (ExecutionError (msg_data error_msg))], None)"
    using generate_image_outcome [of ?B2 "''goblin''" "''blurry''" 42 128 128 "''c1''"] q(1) w(2)
    by blast
  have 3: "generate_image ?B3 ''c1'' ''goblin'' ''blurry'' 42 128 128
      = ([GenerationFailed NoImagesFound], None)"
    using generate_image_outcome [of ?B3 "''goblin''" "''blurry''" 42 128 128 "''c1''"] q(1) w(1) g(1)
    by blast
  have 4: "generate_image ?B4 ''c1'' ''goblin'' ''blurry'' 42 128 128
      = ([], Some [137, 80, 78, 71])"
    using generate_image_outcome [of ?B4 "''goblin''" "''blurry''" 42 128 128 "''c1''"] q(1) w(1) g(2)
    by blast
  from 1 2 3 4 show ?thesis by simp
qed

text \<open>
  Claim C1 as stated fails: the error of the failing stage is not what the caller
  receives. A backend that rejects the prompt with status 500 and a backend on which the
  wait times out make \<open>generate_image\<close> return the same value, \<^verbatim>\<open>None\<close>.
\<close>

theorem generate_image_hides_stage:
  "queue_prompt
     (stub_backend 500 [] (history_of []) (view_only ''b.png''))
     (create_workflow ''goblin'' ''blurry'' 42 128 128) ''c1'' = Inl (QueueFailed 500 ''ack'')
   \<and> snd (generate_image (stub_backend 500 [] (history_of []) (view_only ''b.png''))
         ''c1'' ''goblin'' ''blurry'' 42 128 128) = None
   \<and> fst (wait_for_completion
         (stub_backend 200 [] (history_of []) (view_only ''b.png'')) ''p1'' ''c1'') = Inl Timeout
   \<and> snd (generate_image (stub_backend 200 [] (history_of []) (view_only ''b.png''))
         ''c1'' ''goblin'' ''blurry'' 42 128 128) = None"
  by (simp add: generate_image_def queue_prompt_def wait_for_completion_def stub_backend_sel
      Let_def cancel_def)

section \<open>Properties of the validation\<close>

subsection \<open>The similarity loop\<close>

lemma sum_min_le: "sum_list (map2 min h1 h2) \<le> sum_list (h1 :: nat list)"
proof (induction h1 arbitrary: h2)
  case Nil
  then show ?case by simp
next
  case (Cons a h1)
  show ?case
  proof (cases h2)
    case Nil
    then show ?thesis by simp
  next
    case (Cons b h2')
    then show ?thesis using Cons.IH [of h2'] by (simp add: add_mono)
  qed
qed

lemma fraction_range:
  "a \<le> b \<Longrightarrow> 0 \<le> (of_nat a :: rat) / of_nat b \<and> (of_nat a :: rat) / of_nat b \<le> 1"
  for a b :: nat
  by (cases "b = 0") (simp_all add: divide_le_eq_1)

lemma histogram_intersection_range:
  "0 \<le> histogram_intersection h1 h2 \<and> histogram_intersection h1 h2 \<le> 1"
  unfolding histogram_intersection_def by (rule fraction_range [OF sum_min_le])

lemma pair_sum_range:
  "0 \<le> sum_list (map2 histogram_intersection xs ys)
   \<and> sum_list (map2 histogram_intersection xs ys) \<le> of_nat (length (zip xs ys))"
proof (induction xs arbitrary: ys)
  case Nil
  then show ?case by simp
next
  case (Cons x xs)
  show ?case
  proof (cases ys)
    case Nil
    then show ?thesis by simp
  next
    case (Cons y ys')
    then show ?thesis
      using Cons.IH [of ys'] histogram_intersection_range [of x y] by simp
  qed
qed

lemma average_similarity_range:
  assumes "2 \<le> length hs"
  shows "0 \<le> average_similarity hs \<and> average_similarity hs \<le> 1"
proof -
  let ?s = "sum_list (map2 histogram_intersection (butlast hs) (tl hs))"
  have len: "length (zip (butlast hs) (tl hs)) = length hs - 1" by simp
  have pos: "(0::rat) < of_nat (length hs - 1)" using assms by simp
  have "0 \<le> ?s" and "?s \<le> of_nat (length hs - 1)"
    using pair_sum_range [of "butlast hs" "tl hs"] by (simp_all only: len)
  then show ?thesis
    using pos unfolding average_similarity_def
    by (simp add: divide_le_eq_1 del: of_nat_diff)
qed

lemma similarity_loop_step:
  "similarity_loop (h1 # h2 # hs) acc =
     (if sum_list h1 = 0 then Inl ZeroDivisionError
      else similarity_loop (h2 # hs) (acc + histogram_intersection h1 h2))"
  by (simp add: histogram_intersection_def del: sum_list_eq_0_iff)

lemma similarity_loop_eq:
  "similarity_loop hs acc =
     (if list_all (\<lambda>h. 0 < sum_list h) (butlast hs)
      then Inr (acc + sum_list (map2 histogram_intersection (butlast hs) (tl hs)))
      else Inl ZeroDivisionError)"
proof (induction hs arbitrary: acc)
  case Nil
  then show ?case by simp
next
  case (Cons h1 hs)
  show ?case
  proof (cases hs)
    case Nil
    then show ?thesis by simp
  next
    case (Cons h2 hs')
    show ?thesis
    proof (cases "sum_list h1 = 0")
      case True
      then show ?thesis
        unfolding Cons similarity_loop_step by (simp del: sum_list_eq_0_iff)
    next
      case False
      then have pos: "0 < sum_list h1" by (simp del: sum_list_eq_0_iff)
      show ?thesis
        unfolding Cons similarity_loop_step
        using False pos Cons.IH [of "acc + histogram_intersection h1 h2", unfolded Cons]
        by (simp add: add.assoc del: sum_list_eq_0_iff similarity_loop.simps)
    qed
  qed
qed

lemma scorable_map:
  "list_all (\<lambda>h. 0 < sum_list h) (butlast (map (histogram P) frames)) = scorable P frames"
  by (simp add: scorable_def map_butlast [symmetric] list_all_iff del: sum_list_eq_0_iff)

lemma validate_sprites_eq:
  assumes "frames \<noteq> []"
  shows "validate_sprites P frames =
    (if scorable P frames then
       Inr (Results
         \<lparr>size_consistent = list_all (\<lambda>f. size_of f = size_of (hd frames)) frames,
          has_transparency = list_all (\<lambda>f. im_mode f = ''RGBA'') frames,
          frame_count = int (length frames),
          visual_similarity =
            (if length frames > 1 then average_similarity (map (histogram P) frames) else 1),
          passes =
            (list_all (\<lambda>f. size_of f = size_of (hd frames)) frames
             \<and> list_all (\<lambda>f. im_mode f = ''RGBA'') frames
             \<and> (if length frames > 1 then average_similarity (map (histogram P) frames) else 1)
                 > 1 / 2)\<rparr>)
     else Inl ZeroDivisionError)"
proof -
  have unfold: "validate_sprites P frames =
      (case
         (if length frames > 1 then
            (case similarity_loop (map (histogram P) frames) 0 of
               Inl e \<Rightarrow> Inl e
             | Inr similarity_sum \<Rightarrow>
                 Inr (similarity_sum / of_int (int (length frames) - 1)))
          else Inr 1) of
         Inl e \<Rightarrow> Inl e
       | Inr similarity \<Rightarrow>
           let sc = list_all (\<lambda>f. size_of f = size_of (hd frames)) frames;
               ht = list_all (\<lambda>f. im_mode f = ''RGBA'') frames
           in Inr (Results
                \<lparr>size_consistent = sc,
                 has_transparency = ht,
                 frame_count = int (length frames),
                 visual_similarity = similarity,
                 passes = (sc \<and> ht \<and> similarity > 1 / 2)\<rparr>))"
  proof (cases frames)
    case Nil
    with assms show ?thesis by simp
  next
    case (Cons a list)
    show ?thesis unfolding Cons by (simp add: validate_sprites_def Let_def split: sum.split)
  qed
  have loop: "similarity_loop (map (histogram P) frames) 0 =
      (if scorable P frames
       then Inr (sum_list (map2 histogram_intersection
              (butlast (map (histogram P) frames)) (tl (map (histogram P) frames))))
       else Inl ZeroDivisionError)"
    by (simp only: similarity_loop_eq scorable_map add_0)
  show ?thesis
  proof (cases "length frames > 1")
    case True
    have len: "rat_of_int (int (length frames) - 1) = of_nat (length (map (histogram P) frames) - 1)"
      using True by (simp add: of_nat_diff)
    show ?thesis
      unfolding unfold loop len using True
      by (simp add: average_similarity_def Let_def)
  next
    case False
    then have "butlast frames = []" using assms by (cases frames) auto
    then have "scorable P frames" by (simp add: scorable_def)
    then show ?thesis
      unfolding unfold using False by (simp add: Let_def)
  qed
qed

subsection \<open>Error conditions\<close>

text \<open>
  Claim C7, as amended. On an empty frame list \<open>validate_sprites\<close> reports the empty
  frame set: it returns the dictionary with \<^verbatim>\<open>passes\<close> false and the error
  \<^verbatim>\<open>No frames\<close> (it does not raise). On every non-empty frame list that is scorable, and
  so on every list of one frame, it returns the validation results.
\<close>

theorem validate_sprites_errors:
  "validate_sprites P [] = Inr (ErrorResult False ''No frames'')
   \<and> (frames \<noteq> [] \<and> scorable P frames
        \<longrightarrow> (\<exists>r. validate_sprites P frames = Inr (Results r)))
   \<and> (length frames = 1 \<longrightarrow> (\<exists>r. validate_sprites P frames = Inr (Results r)))"
proof (intro conjI impI)
  show "validate_sprites P [] = Inr (ErrorResult False ''No frames'')"
    by (simp add: validate_sprites_def)
next
  assume "frames \<noteq> [] \<and> scorable P frames"
  then show "\<exists>r. validate_sprites P frames = Inr (Results r)"
    by (simp add: validate_sprites_eq)
next
  assume one: "length frames = 1"
  then have ne: "frames \<noteq> []" by auto
  from one have "butlast frames = []" by (cases frames) auto
  then have "scorable P frames" by (simp add: scorable_def)
  with ne show "\<exists>r. validate_sprites P frames = Inr (Results r)"
    by (simp add: validate_sprites_eq)
qed

theorem validate_sprites_errors_witness:
  "validate_sprites example_pillow [] = Inr (ErrorResult False ''No frames'')
   \<and> (\<exists>r. validate_sprites example_pillow
          [flat_image (2, 2) ''RGBA'' (255, 0, 0, 255), flat_image (2, 2) ''RGBA'' (0, 0, 0, 0)]
        = Inr (Results r))
   \<and> (\<exists>r. validate_sprites example_pillow [flat_image (0, 0) ''RGBA'' (0, 0, 0, 0)]
        = Inr (Results r))"
proof -
  let ?fs = "[flat_image (2, 2) ''RGBA'' (255, 0, 0, 255), flat_image (2, 2) ''RGBA'' (0, 0, 0, 0)]"
  have "?fs \<noteq> [] \<and> scorable example_pillow ?fs"
    by (simp add: scorable_def example_pillow_def flat_image_def alpha_def)
  moreover have "length [flat_image (0, 0) ''RGBA'' (0, 0, 0, 0)] = 1" by simp
  ultimately show ?thesis
    using validate_sprites_errors [of example_pillow ?fs]
      validate_sprites_errors [of example_pillow "[flat_image (0, 0) ''RGBA'' (0, 0, 0, 0)]"]
    by blast
qed

text \<open>
  Claim C7 as stated fails: the empty list is not the only error condition. A frame
  without pixels has a histogram of zeros, and when another frame follows it the score
  divides by zero.
\<close>

theorem validate_sprites_zero_division:
  "validate_sprites example_pillow
     [flat_image (0, 0) ''RGBA'' (0, 0, 0, 0), flat_image (2, 2) ''RGBA'' (0, 0, 0, 0)]
   = Inl ZeroDivisionError"
  by (simp add: validate_sprites_def example_pillow_def flat_image_def alpha_def)

subsection \<open>Range of the similarity\<close>

text \<open>
  Claim C9. For every list of two or more frames, the visual similarity that
  \<open>validate_sprites\<close> reports is the average over the adjacent pairs of the sum of the
  bin-wise minima divided by the sum of the first histogram, and it lies in the closed
  interval from 0 to 1. The results are reported whenever the list is scorable. (The
  floats of the source are exact rationals here; rounding to the nearest float is
  monotone and 0 and 1 are floats, so the bounds are those of the float as well.)
\<close>

theorem visual_similarity_range:
  assumes "2 \<le> length frames"
  shows "(\<forall>v. validate_sprites P frames = Inr v \<longrightarrow>
            (\<exists>r. v = Results r
               \<and> visual_similarity r = average_similarity (map (histogram P) frames)
               \<and> 0 \<le> visual_similarity r \<and> visual_similarity r \<le> 1))
       \<and> (scorable P frames \<longrightarrow> (\<exists>r. validate_sprites P frames = Inr (Results r)))"
proof -
  have ne: "frames \<noteq> []" using assms by auto
  have gt: "length frames > 1" using assms by simp
  have range: "0 \<le> average_similarity (map (histogram P) frames)
      \<and> average_similarity (map (histogram P) frames) \<le> 1"
    using average_similarity_range [of "map (histogram P) frames"] assms by simp
  show ?thesis
    using range gt by (auto simp: validate_sprites_eq [OF ne] split: if_splits)
qed

theorem visual_similarity_range_witness:
  "\<exists>r. validate_sprites example_pillow
        [flat_image (2, 2) ''RGBA'' (255, 0, 0, 255), flat_image (2, 2) ''RGBA'' (255, 0, 0, 255),
         flat_image (2, 2) ''RGBA'' (0, 0, 0, 0)] = Inr (Results r)
     \<and> visual_similarity r = 1 / 2 \<and> 0 \<le> visual_similarity r \<and> visual_similarity r \<le> 1"
proof -
  let ?fs = "[flat_image (2, 2) ''RGBA'' (255, 0, 0, 255), flat_image (2, 2) ''RGBA'' (255, 0, 0, 255),
         flat_image (2, 2) ''RGBA'' (0, 0, 0, 0)]"
  have len: "2 \<le> length ?fs" by simp
  have sc: "scorable example_pillow ?fs"
    by (simp add: scorable_def example_pillow_def flat_image_def alpha_def)
  have avg: "average_similarity (map (histogram example_pillow) ?fs) = 1 / 2"
    by (simp add: average_similarity_def histogram_intersection_def example_pillow_def
        flat_image_def alpha_def)
  from visual_similarity_range [OF len, of example_pillow] sc
  obtain r where r: "validate_sprites example_pillow ?fs = Inr (Results r)" by blast
  with visual_similarity_range [OF len, of example_pillow]
  have "visual_similarity r = average_similarity (map (histogram example_pillow) ?fs)
      \<and> 0 \<le> visual_similarity r \<and> visual_similarity r \<le> 1"
    by auto
  with r avg show ?thesis by auto
qed

subsection \<open>Transparency\<close>

text \<open>
  Claim C10. In the results of \<open>validate_sprites\<close>, \<^verbatim>\<open>has_transparency\<close> is true
  exactly when the mode of every frame is the string \<^verbatim>\<open>RGBA\<close>; when it is false the
  verdict \<^verbatim>\<open>passes\<close> is false. So a frame of another mode with an alpha band, such
  as \<^verbatim>\<open>LA\<close>, makes both false. The results are reported whenever the list is not
  empty and scorable.
\<close>

theorem has_transparency_iff:
  "(\<forall>r. validate_sprites P frames = Inr (Results r) \<longrightarrow>
       (has_transparency r \<longleftrightarrow> (\<forall>f\<in>set frames. im_mode f = ''RGBA''))
       \<and> (\<not> has_transparency r \<longrightarrow> \<not> passes r))
   \<and> (frames \<noteq> [] \<and> scorable P frames
        \<longrightarrow> (\<exists>r. validate_sprites P frames = Inr (Results r)))"
proof (cases "frames = []")
  case True
  then show ?thesis by (simp add: validate_sprites_def)
next
  case False
  show ?thesis
    by (auto simp: validate_sprites_eq [OF False] list_all_iff split: if_splits)
qed

theorem has_transparency_iff_witness:
  "\<exists>r. validate_sprites example_pillow
        [flat_image (2, 2) ''RGBA'' (255, 0, 0, 255), flat_image (2, 2) ''LA'' (255, 0, 0, 255)]
        = Inr (Results r)
     \<and> \<not> has_transparency r \<and> \<not> passes r \<and> size_consistent r \<and> visual_similarity r = 1"
proof -
  let ?fs = "[flat_image (2, 2) ''RGBA'' (255, 0, 0, 255), flat_image (2, 2) ''LA'' (255, 0, 0, 255)]"
  have sc: "?fs \<noteq> [] \<and> scorable example_pillow ?fs"
    by (simp add: scorable_def example_pillow_def flat_image_def alpha_def)
  with has_transparency_iff [of example_pillow ?fs]
  obtain r where r: "validate_sprites example_pillow ?fs = Inr (Results r)" by blast
  have la: "\<not> (\<forall>f\<in>set ?fs. im_mode f = ''RGBA'')"
    by (simp add: flat_image_def)
  from has_transparency_iff [of example_pillow ?fs] r la
  have t: "\<not> has_transparency r \<and> \<not> passes r" by blast
  have "validate_sprites example_pillow ?fs = Inr (Results
      \<lparr>size_consistent = True, has_transparency = False, frame_count = 2,
       visual_similarity = 1, passes = False\<rparr>)"
    by (simp add: validate_sprites_def example_pillow_def flat_image_def alpha_def size_of_def)
  with r have "size_consistent r \<and> visual_similarity r = 1" by auto
  with r t show ?thesis by blast
qed

section \<open>Properties of the normalizer\<close>






end
